theory Spec2Isabelle
  imports Main "HOL-Library.AList"
begin

section \<open>Permissions (src/permissions.py)\<close>

text \<open>
  The two enumerations of the module. Both are string enums in the source; the string
  carried by a role is \<open>role_value\<close> below.
\<close>

datatype Role = OWNER | EDITOR | VIEWER

datatype Permission = VIEW | EDIT | MANAGE

text \<open>
  The exceptions of the source as values. \<open>PermissionError\<close> is \<open>Forbidden\<close>. The source
  raises \<open>ValueError\<close> for every other failure and tells the cases apart by the message
  only: "... not found" and "... is not a collaborator ..." are \<open>NotFound\<close>, "Cannot add
  document owner as collaborator" is \<open>InvalidOperation\<close>, "... is no longer active" is
  \<open>LinkInactive\<close>, "... has expired" is \<open>LinkExpired\<close>, "Unsupported role: ..." is
  \<open>InvalidRole\<close>. \<open>KeyError\<close> is what a failed dict subscript raises.
\<close>

datatype error =
  Forbidden | NotFound | InvalidOperation | LinkInactive | LinkExpired | InvalidRole | KeyError

fun role_value :: "Role \<Rightarrow> string" where
  "role_value OWNER = ''owner''"
| "role_value EDITOR = ''editor''"
| "role_value VIEWER = ''viewer''"

text \<open>The members of \<open>Role\<close> in definition order, as \<open>for role in Role\<close> visits them.\<close>

definition Role_members :: "Role list" where
  "Role_members = [OWNER, EDITOR, VIEWER]"

text \<open>
  The dict \<open>_ROLE_PERMISSIONS\<close>, as the association list of its three entries; a subscript
  is a lookup that may fail.
\<close>

definition ROLE_PERMISSIONS :: "(Role \<times> Permission set) list" where
  "ROLE_PERMISSIONS =
     [(OWNER, {VIEW, EDIT, MANAGE}), (EDITOR, {VIEW, EDIT}), (VIEWER, {VIEW})]"

text \<open>
  \<open>str.lower\<close> on the characters of a string. Strings are modelled as lists of 8-bit
  characters: the letters \<open>A\<close> to \<open>Z\<close> are mapped to \<open>a\<close> to \<open>z\<close>, every other character is
  left alone.
\<close>

definition lower_char :: "char \<Rightarrow> char" where
  "lower_char c =
     (case map_of (zip ''ABCDEFGHIJKLMNOPQRSTUVWXYZ'' ''abcdefghijklmnopqrstuvwxyz'') c of
        Some l \<Rightarrow> l
      | None \<Rightarrow> c)"

definition lower :: "string \<Rightarrow> string" where
  "lower s = map lower_char s"

text \<open>The loop of \<open>role_from_str\<close> over the members of the enum.\<close>

fun role_from_str_loop :: "Role list \<Rightarrow> string \<Rightarrow> error + Role" where
  "role_from_str_loop [] normalized = Inl InvalidRole"
| "role_from_str_loop (role # roles) normalized =
     (if role_value role = normalized then Inr role else role_from_str_loop roles normalized)"

definition role_from_str :: "string \<Rightarrow> error + Role" where
  "role_from_str v = (let normalized = lower v in role_from_str_loop Role_members normalized)"

definition can :: "Role \<Rightarrow> Permission \<Rightarrow> error + bool" where
  "can role permission =
     (case map_of ROLE_PERMISSIONS role of
        None \<Rightarrow> Inl KeyError
      | Some granted \<Rightarrow> Inr (permission \<in> granted))"

definition has_permission :: "Role option \<Rightarrow> Permission \<Rightarrow> error + bool" where
  "has_permission role permission =
     (case role of None \<Rightarrow> Inr False | Some r \<Rightarrow> can r permission)"

section \<open>Collaboration and sharing (src/collaboration.py)\<close>

text \<open>
  A \<open>UUID\<close> is only ever compared and used as a dict key, so it is a number. A
  \<open>datetime\<close> is a point on the time line, compared with \<open>>\<close>. The content and the
  metadata of a document are dicts that this module never reads.
\<close>

type_synonym uuid = nat

type_synonym datetime = int

type_synonym payload = "(string \<times> string) list"

text \<open>
  The dataclasses. A field whose name two classes share carries the class name as a
  suffix. The defaults of \<open>ShareLink\<close> (\<open>is_active = True\<close>, \<open>access_count = 0\<close>) are
  written out where \<open>create_share_link\<close> builds the link.
\<close>

record User =
  id_User :: uuid
  email :: string
  name :: string

record ShareLink =
  id_ShareLink :: uuid
  document_id_ShareLink :: uuid
  created_by :: uuid
  created_at_ShareLink :: datetime
  expires_at :: "datetime option"
  access_role :: Role
  is_active :: bool
  access_count :: int

record Collaborator =
  user_id :: uuid
  document_id :: uuid
  role :: Role
  added_by :: uuid
  added_at :: datetime
  last_accessed :: "datetime option"

text \<open>
  A Python dict keeps its keys in insertion order, and the module iterates over
  \<open>documents\<close> and lists the values of \<open>collaborators\<close> and \<open>share_links\<close>. A dict is
  therefore an association list: \<open>map_of\<close> is \<open>get\<close>, \<open>AList.update\<close> is item assignment
  (an existing key keeps its place, a new key goes to the end) and \<open>AList.delete\<close> is
  \<open>del\<close>. The keys of a dict are distinct; the theorems that depend on it say so.
\<close>

record Document =
  id_Document :: uuid
  title :: string
  content :: payload
  owner_id :: uuid
  created_at :: datetime
  updated_at :: datetime
  metadata :: payload
  collaborators :: "(uuid \<times> Collaborator) list"
  share_links :: "(uuid \<times> ShareLink) list"

text \<open>
  The state of a \<open>CollaborationManager\<close>. Every operation takes the state and returns
  its outcome together with the state it leaves behind, also when it raises. Objects
  are held by value: the source mutates a document, a link or a collaborator through
  the reference stored in the dict, which is an update at the key it was found under
  (no object is taken to sit in two dicts at once). A parameter that shares its name
  with a field is primed. \<open>init\<close> is the manager \<open>__init__\<close> builds.
\<close>

record CollaborationManager =
  documents :: "(uuid \<times> Document) list"
  users :: "(uuid \<times> User) list"

definition init :: CollaborationManager where
  "init = \<lparr>documents = [], users = []\<rparr>"

definition add_user :: "CollaborationManager \<Rightarrow> User \<Rightarrow> CollaborationManager" where
  "add_user self user = self\<lparr>users := AList.update (id_User user) user (users self)\<rparr>"

definition add_document :: "CollaborationManager \<Rightarrow> Document \<Rightarrow> CollaborationManager" where
  "add_document self document =
     self\<lparr>documents := AList.update (id_Document document) document (documents self)\<rparr>"

definition get_user_role :: "CollaborationManager \<Rightarrow> uuid \<Rightarrow> uuid \<Rightarrow> Role option" where
  "get_user_role self user_id' document_id' =
     (case map_of (documents self) document_id' of
        None \<Rightarrow> None
      | Some document \<Rightarrow>
          if owner_id document = user_id' then Some OWNER
          else (case map_of (collaborators document) user_id' of
                  Some collaborator \<Rightarrow> Some (role collaborator)
                | None \<Rightarrow> None))"

definition check_permission ::
  "CollaborationManager \<Rightarrow> uuid \<Rightarrow> uuid \<Rightarrow> Permission \<Rightarrow> error + bool" where
  "check_permission self user_id' document_id' permission =
     has_permission (get_user_role self user_id' document_id') permission"

text \<open>\<open>now\<close> is the value \<open>datetime.now()\<close> returns during the call.\<close>

definition add_collaborator ::
  "CollaborationManager \<Rightarrow> uuid \<Rightarrow> uuid \<Rightarrow> Role \<Rightarrow> uuid \<Rightarrow> datetime
     \<Rightarrow> (error + Collaborator) \<times> CollaborationManager" where
  "add_collaborator self document_id' user_id' role' added_by' now =
     (case check_permission self added_by' document_id' MANAGE of
        Inl e \<Rightarrow> (Inl e, self)
      | Inr allowed \<Rightarrow>
          if \<not> allowed then (Inl Forbidden, self)
          else (case map_of (documents self) document_id' of
                  None \<Rightarrow> (Inl NotFound, self)
                | Some document \<Rightarrow>
                    if map_of (users self) user_id' = None then (Inl NotFound, self)
                    else if user_id' = owner_id document then (Inl InvalidOperation, self)
                    else
                      let collaborator =
                            \<lparr>user_id = user_id', document_id = document_id', role = role',
                             added_by = added_by', added_at = now, last_accessed = None\<rparr>;
                          document = document\<lparr>collaborators :=
                            AList.update user_id' collaborator (collaborators document)\<rparr>
                      in (Inr collaborator,
                          self\<lparr>documents :=
                            AList.update document_id' document (documents self)\<rparr>)))"

definition remove_collaborator ::
  "CollaborationManager \<Rightarrow> uuid \<Rightarrow> uuid \<Rightarrow> uuid \<Rightarrow> (error + unit) \<times> CollaborationManager" where
  "remove_collaborator self document_id' user_id' removed_by =
     (case check_permission self removed_by document_id' MANAGE of
        Inl e \<Rightarrow> (Inl e, self)
      | Inr allowed \<Rightarrow>
          if \<not> allowed then (Inl Forbidden, self)
          else (case map_of (documents self) document_id' of
                  None \<Rightarrow> (Inl NotFound, self)
                | Some document \<Rightarrow>
                    if map_of (collaborators document) user_id' = None
                    then (Inl NotFound, self)
                    else
                      let document = document\<lparr>collaborators :=
                            AList.delete user_id' (collaborators document)\<rparr>
                      in (Inr (),
                          self\<lparr>documents :=
                            AList.update document_id' document (documents self)\<rparr>)))"

text \<open>\<open>uuid4\<close> is the identifier \<open>uuid4()\<close> returns during the call.\<close>

definition create_share_link ::
  "CollaborationManager \<Rightarrow> uuid \<Rightarrow> uuid \<Rightarrow> Role \<Rightarrow> datetime option \<Rightarrow> uuid \<Rightarrow> datetime
     \<Rightarrow> (error + ShareLink) \<times> CollaborationManager" where
  "create_share_link self document_id' created_by' role' expires_at' uuid4 now =
     (case check_permission self created_by' document_id' MANAGE of
        Inl e \<Rightarrow> (Inl e, self)
      | Inr allowed \<Rightarrow>
          if \<not> allowed then (Inl Forbidden, self)
          else (case map_of (documents self) document_id' of
                  None \<Rightarrow> (Inl NotFound, self)
                | Some document \<Rightarrow>
                    let share_link =
                          \<lparr>id_ShareLink = uuid4, document_id_ShareLink = document_id',
                           created_by = created_by', created_at_ShareLink = now,
                           expires_at = expires_at', access_role = role',
                           is_active = True, access_count = 0\<rparr>;
                        document = document\<lparr>share_links :=
                          AList.update (id_ShareLink share_link) share_link
                            (share_links document)\<rparr>
                    in (Inr share_link,
                        self\<lparr>documents :=
                          AList.update document_id' document (documents self)\<rparr>)))"

definition revoke_share_link ::
  "CollaborationManager \<Rightarrow> uuid \<Rightarrow> uuid \<Rightarrow> uuid \<Rightarrow> (error + unit) \<times> CollaborationManager" where
  "revoke_share_link self document_id' link_id revoked_by =
     (case check_permission self revoked_by document_id' MANAGE of
        Inl e \<Rightarrow> (Inl e, self)
      | Inr allowed \<Rightarrow>
          if \<not> allowed then (Inl Forbidden, self)
          else (case map_of (documents self) document_id' of
                  None \<Rightarrow> (Inl NotFound, self)
                | Some document \<Rightarrow>
                    (case map_of (share_links document) link_id of
                       None \<Rightarrow> (Inl NotFound, self)
                     | Some share_link \<Rightarrow>
                         let share_link = share_link\<lparr>is_active := False\<rparr>;
                             document = document\<lparr>share_links :=
                               AList.update link_id share_link (share_links document)\<rparr>
                         in (Inr (),
                             self\<lparr>documents :=
                               AList.update document_id' document (documents self)\<rparr>))))"

text \<open>
  The two writes of a successful redemption: \<open>share_link.access_count += 1\<close>, and
  \<open>last_accessed\<close> of the caller's collaborator record when a user id is given and that
  user is a collaborator of the document.
\<close>

definition count_access :: "Document \<Rightarrow> uuid \<Rightarrow> ShareLink \<Rightarrow> Document" where
  "count_access document link_id share_link =
     document\<lparr>share_links :=
       AList.update link_id (share_link\<lparr>access_count := access_count share_link + 1\<rparr>)
         (share_links document)\<rparr>"

definition touch_collaborator :: "Document \<Rightarrow> uuid option \<Rightarrow> datetime \<Rightarrow> Document" where
  "touch_collaborator document user_id' now =
     (case user_id' of
        None \<Rightarrow> document
      | Some u \<Rightarrow>
          (case map_of (collaborators document) u of
             None \<Rightarrow> document
           | Some collaborator \<Rightarrow>
               document\<lparr>collaborators :=
                 AList.update u (collaborator\<lparr>last_accessed := Some now\<rparr>)
                   (collaborators document)\<rparr>))"

text \<open>
  The loop of \<open>access_via_share_link\<close> over \<open>self.documents.values()\<close>, returning the
  outcome and the documents as the loop leaves them. \<open>now\<close> is the clock read by the
  expiry test and \<open>now2\<close> the one written to \<open>last_accessed\<close>. The document returned is
  the object after both writes.
\<close>

fun access_loop ::
  "(uuid \<times> Document) list \<Rightarrow> uuid \<Rightarrow> uuid option \<Rightarrow> datetime \<Rightarrow> datetime
     \<Rightarrow> (error + Document \<times> Role) \<times> (uuid \<times> Document) list" where
  "access_loop [] link_id user_id' now now2 = (Inl NotFound, [])"
| "access_loop ((k, document) # rest) link_id user_id' now now2 =
     (case map_of (share_links document) link_id of
        Some share_link \<Rightarrow>
          if \<not> is_active share_link then (Inl LinkInactive, (k, document) # rest)
          else if (case expires_at share_link of None \<Rightarrow> False | Some e \<Rightarrow> now > e)
          then (Inl LinkExpired, (k, document) # rest)
          else
            let document =
                  touch_collaborator (count_access document link_id share_link) user_id' now2
            in (Inr (document, access_role share_link), (k, document) # rest)
      | None \<Rightarrow>
          (case access_loop rest link_id user_id' now now2 of
             (outcome, rest') \<Rightarrow> (outcome, (k, document) # rest')))"

definition access_via_share_link ::
  "CollaborationManager \<Rightarrow> uuid \<Rightarrow> uuid option \<Rightarrow> datetime \<Rightarrow> datetime
     \<Rightarrow> (error + Document \<times> Role) \<times> CollaborationManager" where
  "access_via_share_link self link_id user_id' now now2 =
     (case access_loop (documents self) link_id user_id' now now2 of
        (outcome, documents') \<Rightarrow> (outcome, self\<lparr>documents := documents'\<rparr>))"

definition list_collaborators ::
  "CollaborationManager \<Rightarrow> uuid \<Rightarrow> uuid \<Rightarrow> (error + Collaborator list) \<times> CollaborationManager" where
  "list_collaborators self document_id' user_id' =
     (case check_permission self user_id' document_id' VIEW of
        Inl e \<Rightarrow> (Inl e, self)
      | Inr allowed \<Rightarrow>
          if \<not> allowed then (Inl Forbidden, self)
          else (case map_of (documents self) document_id' of
                  None \<Rightarrow> (Inl NotFound, self)
                | Some document \<Rightarrow> (Inr (map snd (collaborators document)), self)))"

definition list_share_links ::
  "CollaborationManager \<Rightarrow> uuid \<Rightarrow> uuid \<Rightarrow> (error + ShareLink list) \<times> CollaborationManager" where
  "list_share_links self document_id' user_id' =
     (case check_permission self user_id' document_id' MANAGE of
        Inl e \<Rightarrow> (Inl e, self)
      | Inr allowed \<Rightarrow>
          if \<not> allowed then (Inl Forbidden, self)
          else (case map_of (documents self) document_id' of
                  None \<Rightarrow> (Inl NotFound, self)
                | Some document \<Rightarrow> (Inr (map snd (share_links document)), self)))"

section \<open>Notions used to state the properties\<close>

text \<open>
  The link a link id resolves to: the search of \<open>access_via_share_link\<close> on its own,
  giving the key of the first document in iteration order whose \<open>share_links\<close> has the
  id, that document and the link.
\<close>

fun resolve_link :: "(uuid \<times> Document) list \<Rightarrow> uuid \<Rightarrow> (uuid \<times> Document \<times> ShareLink) option" where
  "resolve_link [] link_id = None"
| "resolve_link ((k, document) # rest) link_id =
     (case map_of (share_links document) link_id of
        Some share_link \<Rightarrow> Some (k, document, share_link)
      | None \<Rightarrow> resolve_link rest link_id)"

text \<open>The link stored under a link id in the document stored under a document id.\<close>

definition link_at :: "CollaborationManager \<Rightarrow> uuid \<Rightarrow> uuid \<Rightarrow> ShareLink option" where
  "link_at self document_id' link_id =
     (case map_of (documents self) document_id' of
        None \<Rightarrow> None
      | Some document \<Rightarrow> map_of (share_links document) link_id)"







text \<open>
  Two states that differ at most in the registry of users and in the share links of
  their documents: the same documents under the same keys, equal up to \<open>share_links\<close>.
\<close>

definition differ_in_users_and_links_only :: "CollaborationManager \<Rightarrow> CollaborationManager \<Rightarrow> bool" where
  "differ_in_users_and_links_only s s' =
     (map (\<lambda>(k, d). (k, d\<lparr>share_links := []\<rparr>)) (documents s)
      = map (\<lambda>(k, d). (k, d\<lparr>share_links := []\<rparr>)) (documents s'))"

section \<open>The fixture of the test suite\<close>

text \<open>
  The three users and the document of the fixtures, registered as the tests do. The
  identifiers are arbitrary distinct numbers.
\<close>

definition owner_user :: User where
  "owner_user = \<lparr>id_User = 101, email = ''owner@test.com'', name = ''Owner''\<rparr>"

definition editor_user :: User where
  "editor_user = \<lparr>id_User = 102, email = ''editor@test.com'', name = ''Editor''\<rparr>"

definition viewer_user :: User where
  "viewer_user = \<lparr>id_User = 103, email = ''viewer@test.com'', name = ''Viewer''\<rparr>"

definition test_document :: Document where
  "test_document =
     \<lparr>id_Document = 10, title = ''Test Document'', content = [(''text'', ''Test content'')],
      owner_id = 101, created_at = 0, updated_at = 0, metadata = [],
      collaborators = [], share_links = []\<rparr>"

definition fixture :: CollaborationManager where
  "fixture =
     add_document (add_user (add_user (add_user init owner_user) editor_user) viewer_user)
       test_document"

text \<open>
  The fixture after its owner has created a share link with the given expiry, and the
  link that call builds.
\<close>

definition test_link :: "datetime option \<Rightarrow> ShareLink" where
  "test_link ex =
     \<lparr>id_ShareLink = 77, document_id_ShareLink = 10, created_by = 101,
      created_at_ShareLink = 0, expires_at = ex, access_role = VIEWER,
      is_active = True, access_count = 0\<rparr>"

definition fixture_shared :: "datetime option \<Rightarrow> CollaborationManager" where
  "fixture_shared ex = snd (create_share_link fixture 10 101 VIEWER ex 77 0)"

section \<open>The grant table\<close>

lemma can_table:
  "can OWNER p = Inr True"
  "can EDITOR p = Inr (p = VIEW \<or> p = EDIT)"
  "can VIEWER p = Inr (p = VIEW)"
  by (cases p; simp add: can_def ROLE_PERMISSIONS_def)+

text \<open>
  C3. The grant table is total (every role has an entry, so \<open>can\<close> never fails) and fixed:
  the owner is granted every permission, the editor exactly view and edit, the viewer
  exactly view; hence every role grants view, the permission sets are ordered
  owner, editor, viewer by inclusion, and each is non-empty. An absent role is granted
  nothing.
\<close>

theorem grant_table_total_and_fixed:
  "can OWNER p = Inr True
   \<and> can EDITOR p = Inr (p \<in> {VIEW, EDIT})
   \<and> can VIEWER p = Inr (p = VIEW)
   \<and> can r VIEW = Inr True
   \<and> (\<exists>granted. map_of ROLE_PERMISSIONS r = Some granted \<and> granted \<noteq> {})
   \<and> (can VIEWER p = Inr True \<longrightarrow> can EDITOR p = Inr True)
   \<and> (can EDITOR p = Inr True \<longrightarrow> can OWNER p = Inr True)
   \<and> has_permission None p = Inr False"
proof -
  have "can r VIEW = Inr True"
    by (cases r) (simp_all add: can_table)
  moreover have "\<exists>granted. map_of ROLE_PERMISSIONS r = Some granted \<and> granted \<noteq> {}"
    by (cases r) (simp_all add: ROLE_PERMISSIONS_def)
  moreover have "has_permission None p = Inr False"
    by (simp add: has_permission_def)
  ultimately show ?thesis
    by (simp add: can_table)
qed

theorem grant_table_witness:
  "can VIEWER VIEW = Inr True \<and> can EDITOR VIEW = Inr True \<and> can OWNER VIEW = Inr True
   \<and> can EDITOR MANAGE = Inr False \<and> can VIEWER EDIT = Inr False
   \<and> has_permission None MANAGE = Inr False"
  using grant_table_total_and_fixed [of VIEW VIEWER]
    grant_table_total_and_fixed [of MANAGE EDITOR]
    grant_table_total_and_fixed [of EDIT VIEWER]
  by simp

section \<open>Role parsing\<close>

lemma role_from_str_cases:
  "role_from_str s =
     (if lower s = ''owner'' then Inr OWNER
      else if lower s = ''editor'' then Inr EDITOR
      else if lower s = ''viewer'' then Inr VIEWER
      else Inl InvalidRole)"
  by (simp add: role_from_str_def Role_members_def)

lemma lower_role_value: "lower (role_value r) = role_value r"
  by (cases r) (simp_all add: lower_def lower_char_def)

text \<open>
  C9. Parsing the string of a role gives the role back. Parsing looks at the lowered
  string only, so two strings that differ in the case of their letters parse alike,
  and every spelling of a canonical name is accepted. A string whose lowering is none
  of the three names, such as "admin", is rejected with \<open>InvalidRole\<close>.
\<close>

theorem role_from_str_round_trip:
  "role_from_str (role_value r) = Inr r
   \<and> (lower s = lower t \<longrightarrow> role_from_str s = role_from_str t)
   \<and> (lower s = role_value r \<longrightarrow> role_from_str s = Inr r)
   \<and> ((\<forall>r'. lower s \<noteq> role_value r') \<longrightarrow> role_from_str s = Inl InvalidRole)
   \<and> role_from_str ''admin'' = Inl InvalidRole"
proof -
  have ci: "lower s = lower t \<longrightarrow> role_from_str s = role_from_str t"
    by (simp add: role_from_str_def)
  have acc_any: "lower u = role_value r' \<longrightarrow> role_from_str u = Inr r'" for u r'
    by (cases r') (simp_all add: role_from_str_cases)
  have acc: "lower s = role_value r \<longrightarrow> role_from_str s = Inr r"
    by (rule acc_any)
  have rt: "role_from_str (role_value r) = Inr r"
    using acc_any [of "role_value r" r] by (simp add: lower_role_value)
  have rej: "(\<forall>r'. lower s \<noteq> role_value r') \<longrightarrow> role_from_str s = Inl InvalidRole"
  proof
    assume h: "\<forall>r'. lower s \<noteq> role_value r'"
    from h [rule_format, of OWNER] h [rule_format, of EDITOR] h [rule_format, of VIEWER]
    show "role_from_str s = Inl InvalidRole"
      by (simp add: role_from_str_cases)
  qed
  have adm: "role_from_str ''admin'' = Inl InvalidRole"
    by (simp add: role_from_str_cases lower_def lower_char_def)
  from rt ci acc rej adm show ?thesis by blast
qed

theorem role_from_str_witness:
  "role_from_str ''editor'' = Inr EDITOR
   \<and> lower ''EdItOr'' = ''editor''
   \<and> role_from_str ''EdItOr'' = Inr EDITOR
   \<and> lower ''OWNER'' = lower ''owner''
   \<and> role_from_str ''OWNER'' = role_from_str ''owner''
   \<and> (\<forall>r'. lower ''Admin'' \<noteq> role_value r')
   \<and> role_from_str ''Admin'' = Inl InvalidRole"
proof -
  have l1: "lower ''EdItOr'' = role_value EDITOR"
    by (simp add: lower_def lower_char_def)
  have l2: "lower ''OWNER'' = lower ''owner''"
    by (simp add: lower_def lower_char_def)
  have l3: "lower ''Admin'' \<noteq> role_value r'" for r'
    by (cases r') (simp_all add: lower_def lower_char_def)
  show ?thesis
    using role_from_str_round_trip [of EDITOR "''EdItOr''" "''EdItOr''"]
      role_from_str_round_trip [of OWNER "''OWNER''" "''owner''"]
      role_from_str_round_trip [of OWNER "''Admin''" "''Admin''"] l1 l2 l3
    by simp
qed

section \<open>The authorization gate\<close>

lemma has_permission_Inr:
  "has_permission ro p = Inr (case ro of None \<Rightarrow> False | Some OWNER \<Rightarrow> True
       | Some EDITOR \<Rightarrow> p = VIEW \<or> p = EDIT | Some VIEWER \<Rightarrow> p = VIEW)"
  by (simp add: has_permission_def can_table split: option.split Role.split)

lemma check_permission_absent:
  "map_of (documents s) d = None \<Longrightarrow> check_permission s u d p = Inr False"
  by (simp add: check_permission_def get_user_role_def has_permission_def)

lemma check_permission_not_error: "check_permission s u d p \<noteq> Inl e"
  by (simp add: check_permission_def has_permission_Inr)

lemma manage_is_owner_role:
  "check_permission s u d MANAGE = Inr True \<longleftrightarrow> get_user_role s u d = Some OWNER"
  by (simp add: check_permission_def has_permission_Inr split: option.split Role.split)


lemma denied_add_collaborator:
  "check_permission s a d MANAGE = Inr False \<Longrightarrow>
     add_collaborator s d u r a now = (Inl Forbidden, s)"
  by (simp add: add_collaborator_def)

lemma denied_remove_collaborator:
  "check_permission s a d MANAGE = Inr False \<Longrightarrow>
     remove_collaborator s d u a = (Inl Forbidden, s)"
  by (simp add: remove_collaborator_def)

lemma denied_create_share_link:
  "check_permission s a d MANAGE = Inr False \<Longrightarrow>
     create_share_link s d a r ex new now = (Inl Forbidden, s)"
  by (simp add: create_share_link_def)

lemma denied_revoke_share_link:
  "check_permission s a d MANAGE = Inr False \<Longrightarrow>
     revoke_share_link s d l a = (Inl Forbidden, s)"
  by (simp add: revoke_share_link_def)

lemma denied_list_share_links:
  "check_permission s a d MANAGE = Inr False \<Longrightarrow>
     list_share_links s d a = (Inl Forbidden, s)"
  by (simp add: list_share_links_def)

lemmas denied = denied_add_collaborator denied_remove_collaborator denied_create_share_link
  denied_revoke_share_link denied_list_share_links

lemma fixture_unfold:
  "fixture = \<lparr>documents = [(10, test_document)],
               users = [(101, owner_user), (102, editor_user), (103, viewer_user)]\<rparr>"
  by (simp add: fixture_def add_document_def add_user_def init_def owner_user_def
      editor_user_def viewer_user_def test_document_def)

lemma fixture_roles:
  "get_user_role fixture 101 10 = Some OWNER"
  "get_user_role fixture 102 10 = None"
  "get_user_role fixture 103 10 = None"
  by (simp_all add: fixture_unfold get_user_role_def test_document_def)

lemma fixture_manage:
  "check_permission fixture 101 10 MANAGE = Inr True"
  "check_permission fixture 102 10 MANAGE = Inr False"
  "check_permission fixture 103 10 MANAGE = Inr False"
  by (simp_all add: check_permission_def fixture_roles has_permission_Inr)

text \<open>What the calls that pass every check return.\<close>

lemma create_share_link_ok:
  "check_permission s a k MANAGE = Inr True \<Longrightarrow> map_of (documents s) k = Some doc \<Longrightarrow>
     create_share_link s k a r ex new t0 =
       (Inr \<lparr>id_ShareLink = new, document_id_ShareLink = k, created_by = a,
             created_at_ShareLink = t0, expires_at = ex, access_role = r,
             is_active = True, access_count = 0\<rparr>,
        s\<lparr>documents := AList.update k
           (doc\<lparr>share_links := AList.update new
              \<lparr>id_ShareLink = new, document_id_ShareLink = k, created_by = a,
               created_at_ShareLink = t0, expires_at = ex, access_role = r,
               is_active = True, access_count = 0\<rparr> (share_links doc)\<rparr>)
           (documents s)\<rparr>)"
  by (simp add: create_share_link_def Let_def)

lemma add_collaborator_ok:
  "check_permission s a d MANAGE = Inr True \<Longrightarrow> map_of (documents s) d = Some doc \<Longrightarrow>
     map_of (users s) u \<noteq> None \<Longrightarrow> u \<noteq> owner_id doc \<Longrightarrow>
     add_collaborator s d u r a now =
       (Inr \<lparr>user_id = u, document_id = d, role = r, added_by = a, added_at = now,
             last_accessed = None\<rparr>,
        s\<lparr>documents := AList.update d
           (doc\<lparr>collaborators := AList.update u
              \<lparr>user_id = u, document_id = d, role = r, added_by = a, added_at = now,
               last_accessed = None\<rparr> (collaborators doc)\<rparr>)
           (documents s)\<rparr>)"
  by (simp add: add_collaborator_def Let_def)

lemma revoke_share_link_ok:
  "check_permission s a d MANAGE = Inr True \<Longrightarrow> map_of (documents s) d = Some doc \<Longrightarrow>
     map_of (share_links doc) l = Some sl \<Longrightarrow>
     revoke_share_link s d l a =
       (Inr (),
        s\<lparr>documents := AList.update d
           (doc\<lparr>share_links := AList.update l (sl\<lparr>is_active := False\<rparr>) (share_links doc)\<rparr>)
           (documents s)\<rparr>)"
  by (simp add: revoke_share_link_def Let_def)

lemma get_user_role_update:
  "map_of (documents s) d = Some doc \<Longrightarrow> owner_id doc' = owner_id doc \<Longrightarrow>
     collaborators doc' = collaborators doc \<Longrightarrow>
     get_user_role (s\<lparr>documents := AList.update d doc' (documents s)\<rparr>) u d'
       = get_user_role s u d'"
  by (simp add: get_user_role_def update_conv')

lemma fixture_document: "map_of (documents fixture) 10 = Some test_document"
  by (simp add: fixture_unfold)

lemma fixture_shared_unfold:
  "fixture_shared ex =
     \<lparr>documents = [(10, test_document\<lparr>share_links := [(77, test_link ex)]\<rparr>)],
      users = [(101, owner_user), (102, editor_user), (103, viewer_user)]\<rparr>"
  unfolding fixture_shared_def create_share_link_ok [OF fixture_manage(1) fixture_document]
  by (simp add: fixture_unfold test_document_def test_link_def)

lemma fixture_shared_manage: "check_permission (fixture_shared ex) 101 10 MANAGE = Inr True"
  by (simp add: manage_is_owner_role get_user_role_def fixture_shared_unfold test_document_def)

lemma fixture_shared_resolve:
  "resolve_link (documents (fixture_shared ex)) 77
     = Some (10, test_document\<lparr>share_links := [(77, test_link ex)]\<rparr>, test_link ex)"
  by (simp add: fixture_shared_unfold)


text \<open>
  C1, as the code has it. When the document id is not a key of \<open>documents\<close>, the gate
  finds no role for the acting user, whoever that is, and each of the five
  manage-gated operations fails with \<open>Forbidden\<close> and leaves the state as it was. The
  test for the document that follows the gate is never reached with an absent
  document.
\<close>

theorem absent_document_is_forbidden:
  assumes "map_of (documents s) d = None"
  shows "add_collaborator s d u r a now = (Inl Forbidden, s)
     \<and> remove_collaborator s d u a = (Inl Forbidden, s)
     \<and> create_share_link s d a r ex new now = (Inl Forbidden, s)
     \<and> revoke_share_link s d l a = (Inl Forbidden, s)
     \<and> list_share_links s d a = (Inl Forbidden, s)"
  using check_permission_absent [OF assms, of a MANAGE] by (simp add: denied)

theorem absent_document_is_forbidden_witness:
  "map_of (documents fixture) 99 = None
   \<and> add_collaborator fixture 99 102 EDITOR 101 0 = (Inl Forbidden, fixture)
   \<and> remove_collaborator fixture 99 102 101 = (Inl Forbidden, fixture)
   \<and> create_share_link fixture 99 101 VIEWER None 77 0 = (Inl Forbidden, fixture)
   \<and> revoke_share_link fixture 99 77 101 = (Inl Forbidden, fixture)
   \<and> list_share_links fixture 99 101 = (Inl Forbidden, fixture)"
proof -
  have h: "map_of (documents fixture) 99 = None"
    by (simp add: fixture_unfold)
  show ?thesis
    using h absent_document_is_forbidden [OF h, of 102 EDITOR 101 0 None 77 77]
      absent_document_is_forbidden [OF h, of 102 VIEWER 101 0 None 77 77]
    by simp
qed

text \<open>
  C1 as stated fails: in the fixture no document has the id 99, and adding a
  collaborator to it as the owner of another document is \<open>Forbidden\<close>, not \<open>NotFound\<close>.
\<close>

theorem absent_document_not_NotFound:
  "map_of (documents fixture) 99 = None
   \<and> fst (add_collaborator fixture 99 102 EDITOR 101 0) = Inl Forbidden
   \<and> fst (add_collaborator fixture 99 102 EDITOR 101 0) \<noteq> Inl NotFound
   \<and> fst (remove_collaborator fixture 99 102 101) \<noteq> Inl NotFound
   \<and> fst (create_share_link fixture 99 101 VIEWER None 77 0) \<noteq> Inl NotFound
   \<and> fst (revoke_share_link fixture 99 77 101) \<noteq> Inl NotFound
   \<and> fst (list_share_links fixture 99 101) \<noteq> Inl NotFound"
proof -
  have "check_permission fixture 101 99 MANAGE = Inr False"
    by (simp add: fixture_unfold check_permission_def get_user_role_def has_permission_def)
  then show ?thesis
    by (simp add: denied) (simp add: fixture_unfold)
qed

lemma same_role_without_links:
  assumes "differ_in_users_and_links_only s s'"
  shows "get_user_role s u d = get_user_role s' u d"
proof -
  let ?f = "\<lambda>doc :: Document. doc\<lparr>share_links := []\<rparr>"
  from assms have "map_of (map (\<lambda>(k, d). (k, ?f d)) (documents s)) d
      = map_of (map (\<lambda>(k, d). (k, ?f d)) (documents s')) d"
    by (simp add: differ_in_users_and_links_only_def)
  then have eq: "map_option ?f (map_of (documents s) d) = map_option ?f (map_of (documents s') d)"
    by (simp add: map_of_map)
  show ?thesis
  proof (cases "map_of (documents s) d")
    case None
    with eq have "map_of (documents s') d = None" by simp
    with None show ?thesis by (simp add: get_user_role_def)
  next
    case (Some x)
    with eq obtain y where y: "map_of (documents s') d = Some y" and xy: "?f x = ?f y"
      by (cases "map_of (documents s') d") auto
    from xy have "owner_id (?f x) = owner_id (?f y)" "collaborators (?f x) = collaborators (?f y)"
      by simp_all
    then have "owner_id x = owner_id y" "collaborators x = collaborators y" by simp_all
    with Some y show ?thesis by (simp add: get_user_role_def)
  qed
qed

lemma same_permission_without_links:
  "differ_in_users_and_links_only s s' \<Longrightarrow> check_permission s u d p = check_permission s' u d p"
  by (simp add: check_permission_def same_role_without_links [of s s'])

text \<open>
  C2. An acting user without the manage permission on the document gets \<open>Forbidden\<close>
  from each of the five manage-gated operations, whatever target user or link is
  named, and the state is unchanged. The same call in any state that differs only in
  the registered users and in the share links (so that the target user or link may
  exist in one and not in the other) has the same outcome.
\<close>

theorem forbidden_before_existence_checks:
  assumes "check_permission s a d MANAGE = Inr False"
  shows "add_collaborator s d u r a now = (Inl Forbidden, s)
     \<and> remove_collaborator s d u a = (Inl Forbidden, s)
     \<and> create_share_link s d a r ex new now = (Inl Forbidden, s)
     \<and> revoke_share_link s d l a = (Inl Forbidden, s)
     \<and> list_share_links s d a = (Inl Forbidden, s)
     \<and> (differ_in_users_and_links_only s s' \<longrightarrow>
          add_collaborator s' d u r a now = (Inl Forbidden, s')
        \<and> remove_collaborator s' d u a = (Inl Forbidden, s')
        \<and> create_share_link s' d a r ex new now = (Inl Forbidden, s')
        \<and> revoke_share_link s' d l a = (Inl Forbidden, s')
        \<and> list_share_links s' d a = (Inl Forbidden, s'))"
proof -
  have "check_permission s' a d MANAGE = Inr False" if "differ_in_users_and_links_only s s'"
    using assms same_permission_without_links [OF that, of a d MANAGE] by simp
  with assms show ?thesis by (simp add: denied)
qed

theorem forbidden_before_existence_checks_witness:
  "check_permission fixture 103 10 MANAGE = Inr False
   \<and> differ_in_users_and_links_only fixture
        ((snd (create_share_link fixture 10 101 VIEWER None 77 0))\<lparr>users := []\<rparr>)
   \<and> map_of (users fixture) 102 \<noteq> None
   \<and> fst (add_collaborator fixture 10 102 EDITOR 103 0) = Inl Forbidden
   \<and> fst (add_collaborator
        ((snd (create_share_link fixture 10 101 VIEWER None 77 0))\<lparr>users := []\<rparr>)
        10 102 EDITOR 103 0) = Inl Forbidden
   \<and> link_at fixture 10 77 = None
   \<and> fst (revoke_share_link fixture 10 77 103) = Inl Forbidden
   \<and> link_at ((snd (create_share_link fixture 10 101 VIEWER None 77 0))\<lparr>users := []\<rparr>) 10 77
        \<noteq> None
   \<and> fst (revoke_share_link
        ((snd (create_share_link fixture 10 101 VIEWER None 77 0))\<lparr>users := []\<rparr>)
        10 77 103) = Inl Forbidden"
proof -
  let ?s' = "(snd (create_share_link fixture 10 101 VIEWER None 77 0))\<lparr>users := []\<rparr>"
  have h: "check_permission fixture 103 10 MANAGE = Inr False"
    by (rule fixture_manage)
  have s': "?s' = \<lparr>documents = [(10, test_document\<lparr>share_links :=
        [(77, \<lparr>id_ShareLink = 77, document_id_ShareLink = 10, created_by = 101,
          created_at_ShareLink = 0, expires_at = None, access_role = VIEWER,
          is_active = True, access_count = 0\<rparr>)]\<rparr>)], users = []\<rparr>"
    by (simp add: create_share_link_def fixture_manage)
      (simp add: fixture_unfold test_document_def Let_def)
  have d: "differ_in_users_and_links_only fixture ?s'"
    unfolding s' by (simp add: differ_in_users_and_links_only_def fixture_unfold)
  have u: "map_of (users fixture) 102 \<noteq> None"
    by (simp add: fixture_unfold)
  have l: "link_at fixture 10 77 = None"
    by (simp add: link_at_def fixture_unfold test_document_def)
  have l': "link_at ?s' 10 77 \<noteq> None"
    unfolding s' by (simp add: link_at_def)
  show ?thesis
    using h d u l l' forbidden_before_existence_checks [OF h, of 102 EDITOR 0 None 77 77 ?s']
    by simp
qed


section \<open>Failure leaves the state alone\<close>

lemma access_loop_error_unchanged:
  "fst (access_loop docs l u n n2) = Inl e \<Longrightarrow> snd (access_loop docs l u n n2) = docs"
  by (induction docs) (auto simp: Let_def split: option.splits prod.splits if_splits)

lemma access_error_unchanged:
  "fst (access_via_share_link s l u n n2) = Inl e \<Longrightarrow> snd (access_via_share_link s l u n n2) = s"
  using access_loop_error_unchanged [of "documents s" l u n n2 e]
  by (simp add: access_via_share_link_def split: prod.splits)

text \<open>
  C4. Whenever one of the seven operations raises, the state it leaves is the state
  it was called in.
\<close>

theorem failure_leaves_state_unchanged:
  "(fst (add_collaborator s d u r a now) = Inl e \<longrightarrow> snd (add_collaborator s d u r a now) = s)
   \<and> (fst (remove_collaborator s d u a) = Inl e \<longrightarrow> snd (remove_collaborator s d u a) = s)
   \<and> (fst (create_share_link s d a r ex new now) = Inl e
        \<longrightarrow> snd (create_share_link s d a r ex new now) = s)
   \<and> (fst (revoke_share_link s d l a) = Inl e \<longrightarrow> snd (revoke_share_link s d l a) = s)
   \<and> (fst (access_via_share_link s l uo now now2) = Inl e
        \<longrightarrow> snd (access_via_share_link s l uo now now2) = s)
   \<and> (fst (list_collaborators s d a) = Inl e \<longrightarrow> snd (list_collaborators s d a) = s)
   \<and> (fst (list_share_links s d a) = Inl e \<longrightarrow> snd (list_share_links s d a) = s)"
proof -
  have 1: "fst (add_collaborator s d u r a now) = Inl e \<longrightarrow> snd (add_collaborator s d u r a now) = s"
    by (simp add: add_collaborator_def Let_def split: sum.splits option.splits if_splits)
  have 2: "fst (remove_collaborator s d u a) = Inl e \<longrightarrow> snd (remove_collaborator s d u a) = s"
    by (simp add: remove_collaborator_def Let_def split: sum.splits option.splits if_splits)
  have 3: "fst (create_share_link s d a r ex new now) = Inl e
        \<longrightarrow> snd (create_share_link s d a r ex new now) = s"
    by (simp add: create_share_link_def Let_def split: sum.splits option.splits if_splits)
  have 4: "fst (revoke_share_link s d l a) = Inl e \<longrightarrow> snd (revoke_share_link s d l a) = s"
    by (simp add: revoke_share_link_def Let_def split: sum.splits option.splits if_splits)
  have 5: "fst (access_via_share_link s l uo now now2) = Inl e
        \<longrightarrow> snd (access_via_share_link s l uo now now2) = s"
    by (simp add: access_error_unchanged)
  have 6: "fst (list_collaborators s d a) = Inl e \<longrightarrow> snd (list_collaborators s d a) = s"
    by (simp add: list_collaborators_def split: sum.splits option.splits if_splits)
  have 7: "fst (list_share_links s d a) = Inl e \<longrightarrow> snd (list_share_links s d a) = s"
    by (simp add: list_share_links_def split: sum.splits option.splits if_splits)
  from 1 2 3 4 5 6 7 show ?thesis by blast
qed

theorem failure_leaves_state_unchanged_witness:
  "fst (add_collaborator fixture 10 101 EDITOR 101 0) = Inl InvalidOperation
   \<and> snd (add_collaborator fixture 10 101 EDITOR 101 0) = fixture
   \<and> fst (remove_collaborator fixture 10 102 101) = Inl NotFound
   \<and> snd (remove_collaborator fixture 10 102 101) = fixture
   \<and> fst (create_share_link fixture 10 103 VIEWER None 77 0) = Inl Forbidden
   \<and> snd (create_share_link fixture 10 103 VIEWER None 77 0) = fixture
   \<and> fst (revoke_share_link fixture 10 77 101) = Inl NotFound
   \<and> snd (revoke_share_link fixture 10 77 101) = fixture
   \<and> fst (access_via_share_link fixture 77 None 0 0) = Inl NotFound
   \<and> snd (access_via_share_link fixture 77 None 0 0) = fixture
   \<and> fst (list_collaborators fixture 10 103) = Inl Forbidden
   \<and> snd (list_collaborators fixture 10 103) = fixture
   \<and> fst (list_share_links fixture 10 103) = Inl Forbidden
   \<and> snd (list_share_links fixture 10 103) = fixture"
proof -
  have a: "fst (add_collaborator fixture 10 101 EDITOR 101 0) = Inl InvalidOperation"
    by (simp add: add_collaborator_def fixture_manage)
      (simp add: fixture_unfold test_document_def owner_user_def Let_def)
  have b: "fst (remove_collaborator fixture 10 102 101) = Inl NotFound"
    by (simp add: remove_collaborator_def fixture_manage)
      (simp add: fixture_unfold test_document_def)
  have c: "fst (create_share_link fixture 10 103 VIEWER None 77 0) = Inl Forbidden"
    by (simp add: denied fixture_manage)
  have d: "fst (revoke_share_link fixture 10 77 101) = Inl NotFound"
    by (simp add: revoke_share_link_def fixture_manage)
      (simp add: fixture_unfold test_document_def)
  have e: "fst (access_via_share_link fixture 77 None 0 0) = Inl NotFound"
    by (simp add: access_via_share_link_def fixture_unfold test_document_def)
  have "get_user_role fixture 103 10 = None"
    by (rule fixture_roles)
  then have f: "fst (list_collaborators fixture 10 103) = Inl Forbidden"
    by (simp add: list_collaborators_def check_permission_def has_permission_def)
  have g: "fst (list_share_links fixture 10 103) = Inl Forbidden"
    by (simp add: denied fixture_manage)
  show ?thesis
    using a b c d e f g
      failure_leaves_state_unchanged [of fixture 10 101 EDITOR 101 0 InvalidOperation]
      failure_leaves_state_unchanged [where s = fixture and d = 10 and u = 102 and a = 101
        and l = 77 and uo = None and now = 0 and ?now2.0 = 0 and e = NotFound]
      failure_leaves_state_unchanged [where s = fixture and d = 10 and a = 103 and r = VIEWER
        and ex = None and new = 77 and now = 0 and e = Forbidden]
    by simp
qed

section \<open>Redeeming a share link\<close>

























section \<open>Revoking a share link\<close>

text \<open>
  C8. For an acting user with the manage permission and a link of the document, the
  first revocation succeeds, a second one succeeds as well and leaves the state of the
  first, in which the link is not active.
\<close>

theorem revoke_share_link_idempotent:
  assumes m: "check_permission s a d MANAGE = Inr True"
    and l: "link_at s d l = Some sl"
  shows "fst (revoke_share_link s d l a) = Inr ()
     \<and> revoke_share_link (snd (revoke_share_link s d l a)) d l a
         = (Inr (), snd (revoke_share_link s d l a))
     \<and> map_option is_active (link_at (snd (revoke_share_link s d l a)) d l) = Some False"
proof -
  from l obtain doc where doc: "map_of (documents s) d = Some doc"
    and sl: "map_of (share_links doc) l = Some sl"
    by (auto simp: link_at_def split: option.splits)
  let ?sl = "sl\<lparr>is_active := False\<rparr>"
  let ?doc = "doc\<lparr>share_links := AList.update l ?sl (share_links doc)\<rparr>"
  let ?s1 = "s\<lparr>documents := AList.update d ?doc (documents s)\<rparr>"
  have first: "revoke_share_link s d l a = (Inr (), ?s1)"
    by (rule revoke_share_link_ok [OF m doc sl])
  have "get_user_role ?s1 a d = get_user_role s a d"
    by (rule get_user_role_update [OF doc]) simp_all
  with m have m1: "check_permission ?s1 a d MANAGE = Inr True"
    by (simp add: check_permission_def)
  have doc1: "map_of (documents ?s1) d = Some ?doc"
    by (simp add: update_conv')
  have sl1: "map_of (share_links ?doc) l = Some ?sl"
    by (simp add: update_conv')
  have "revoke_share_link ?s1 d l a = (Inr (), ?s1)"
    by (simp add: revoke_share_link_ok [OF m1 doc1 sl1])
  moreover have "map_option is_active (link_at ?s1 d l) = Some False"
    by (simp add: link_at_def update_conv')
  ultimately show ?thesis by (simp add: first)
qed

theorem revoke_share_link_idempotent_witness:
  "check_permission (fixture_shared None) 101 10 MANAGE = Inr True
   \<and> link_at (fixture_shared None) 10 77 = Some (test_link None)
   \<and> fst (revoke_share_link (fixture_shared None) 10 77 101) = Inr ()
   \<and> revoke_share_link (snd (revoke_share_link (fixture_shared None) 10 77 101)) 10 77 101
       = (Inr (), snd (revoke_share_link (fixture_shared None) 10 77 101))
   \<and> map_option is_active
        (link_at (snd (revoke_share_link (fixture_shared None) 10 77 101)) 10 77) = Some False"
proof -
  have l: "link_at (fixture_shared None) 10 77 = Some (test_link None)"
    by (simp add: link_at_def fixture_shared_unfold)
  show ?thesis
    using l fixture_shared_manage [of None]
      revoke_share_link_idempotent [OF fixture_shared_manage l]
    by simp
qed


section \<open>The owner is not a collaborator\<close>

















section \<open>The owner role can be granted\<close>

text \<open>
  C10. For an acting user with the manage permission, \<open>add_collaborator\<close> with the role
  \<open>OWNER\<close> for a registered user who is not the owner of the document succeeds and
  stores a collaborator record with that role; the user then has the role \<open>OWNER\<close> on
  the document and the manage permission. \<open>create_share_link\<close> with the role \<open>OWNER\<close>
  succeeds and stores a link whose \<open>access_role\<close> is \<open>OWNER\<close>.
\<close>

theorem owner_role_is_grantable:
  assumes m: "check_permission s a d MANAGE = Inr True"
    and doc: "map_of (documents s) d = Some doc"
    and reg: "map_of (users s) u \<noteq> None"
    and ne: "u \<noteq> owner_id doc"
  shows "fst (add_collaborator s d u OWNER a now)
         = Inr \<lparr>user_id = u, document_id = d, role = OWNER, added_by = a, added_at = now,
                last_accessed = None\<rparr>
     \<and> (\<exists>doc'. map_of (documents (snd (add_collaborator s d u OWNER a now))) d = Some doc'
           \<and> map_of (collaborators doc') u
               = Some \<lparr>user_id = u, document_id = d, role = OWNER, added_by = a,
                       added_at = now, last_accessed = None\<rparr>)
     \<and> get_user_role (snd (add_collaborator s d u OWNER a now)) u d = Some OWNER
     \<and> check_permission (snd (add_collaborator s d u OWNER a now)) u d MANAGE = Inr True
     \<and> fst (create_share_link s d a OWNER ex new now)
         = Inr \<lparr>id_ShareLink = new, document_id_ShareLink = d, created_by = a,
                created_at_ShareLink = now, expires_at = ex, access_role = OWNER,
                is_active = True, access_count = 0\<rparr>
     \<and> link_at (snd (create_share_link s d a OWNER ex new now)) d new
         = Some \<lparr>id_ShareLink = new, document_id_ShareLink = d, created_by = a,
                 created_at_ShareLink = now, expires_at = ex, access_role = OWNER,
                 is_active = True, access_count = 0\<rparr>"
proof -
  let ?c = "\<lparr>user_id = u, document_id = d, role = OWNER, added_by = a, added_at = now,
             last_accessed = None\<rparr>"
  let ?doc = "doc\<lparr>collaborators := AList.update u ?c (collaborators doc)\<rparr>"
  let ?s1 = "s\<lparr>documents := AList.update d ?doc (documents s)\<rparr>"
  have add: "add_collaborator s d u OWNER a now = (Inr ?c, ?s1)"
    by (rule add_collaborator_ok [OF m doc reg ne])
  have doc1: "map_of (documents ?s1) d = Some ?doc"
    by (simp add: update_conv')
  have c1: "map_of (collaborators ?doc) u = Some ?c"
    by (simp add: update_conv')
  from doc1 c1 ne have role1: "get_user_role ?s1 u d = Some OWNER"
    by (simp add: get_user_role_def)
  then have m1: "check_permission ?s1 u d MANAGE = Inr True"
    by (simp add: manage_is_owner_role)
  have link: "link_at (snd (create_share_link s d a OWNER ex new now)) d new
         = Some \<lparr>id_ShareLink = new, document_id_ShareLink = d, created_by = a,
                 created_at_ShareLink = now, expires_at = ex, access_role = OWNER,
                 is_active = True, access_count = 0\<rparr>"
    by (simp add: create_share_link_ok [OF m doc] link_at_def update_conv')
  from doc1 c1 role1 m1 link show ?thesis
    by (simp add: add create_share_link_ok [OF m doc])
qed

theorem owner_role_is_grantable_witness:
  "check_permission fixture 101 10 MANAGE = Inr True
   \<and> map_of (documents fixture) 10 = Some test_document
   \<and> map_of (users fixture) 102 \<noteq> None
   \<and> 102 \<noteq> owner_id test_document
   \<and> get_user_role (snd (add_collaborator fixture 10 102 OWNER 101 0)) 102 10 = Some OWNER
   \<and> check_permission (snd (add_collaborator fixture 10 102 OWNER 101 0)) 102 10 MANAGE
       = Inr True
   \<and> map_option access_role
        (link_at (snd (create_share_link fixture 10 101 OWNER None 77 0)) 10 77) = Some OWNER"
proof -
  have reg: "map_of (users fixture) 102 \<noteq> None"
    by (simp add: fixture_unfold)
  have ne: "102 \<noteq> owner_id test_document"
    by (simp add: test_document_def)
  show ?thesis
    using reg ne fixture_manage(1) fixture_document
      owner_role_is_grantable [OF fixture_manage(1) fixture_document reg ne, of 0 None 77]
    by simp
qed


end
